theory Spec2Isabelle
  imports Main
begin

section \<open>Dynamic dispatch proxies of comtypes.client.dynamic\<close>

text \<open>
  The module wraps a late-bound COM object: \<^verbatim>\<open>Dispatch\<close> builds a \<^verbatim>\<open>_Dispatch\<close> proxy,
  attribute reads and writes on the proxy become \<^verbatim>\<open>GetIDsOfNames\<close> and \<^verbatim>\<open>Invoke\<close> calls
  on the wrapped object, \<^verbatim>\<open>MethodCaller\<close> is the bound member handed out when a plain
  property read is refused, and \<^verbatim>\<open>_Collection\<close> iterates an \<^verbatim>\<open>IEnumVARIANT\<close>.

  The Python objects live in a store (a list of objects, an address is an index), the
  COM side is a parameter: a record of functions over a state of its own. Every call
  that crosses to the COM side is appended to a trace, so that the number and the order
  of the foreign calls can be stated.
\<close>

subsection \<open>Values, exceptions, objects\<close>

type_synonym addr = nat
type_synonym comref = nat

datatype iface = IUnknown | IDispatch | IEnumVARIANT

text \<open>
  A Python value: a scalar, a COM interface pointer \<^verbatim>\<open>POINTER(iface)\<close> to the foreign
  object with the given number, a reference to an object of this module in the store, or
  the \<^verbatim>\<open>_ids\<close> dictionary of the proxy at an address.
\<close>

datatype pyval =
    PyNone
  | PyInt int
  | PyStr string
  | ComPtr iface comref
  | Ref addr
  | IdsRef addr

text \<open>The \<^verbatim>\<open>_invkind\<close> flags of comtypes.automation.\<close>

datatype invkind =
    DISPATCH_METHOD
  | DISPATCH_PROPERTYGET
  | DISPATCH_PROPERTYPUT
  | DISPATCH_PROPERTYPUTREF

text \<open>
  Modelled from the spec: the default of the \<^verbatim>\<open>_invkind\<close> keyword of
  \<^verbatim>\<open>IDispatch.Invoke\<close> (comtypes.automation, not part of this module). A call that
  passes no \<^verbatim>\<open>_invkind\<close> is a METHOD-CALL invocation.
\<close>

definition invkind_of :: "invkind option \<Rightarrow> invkind" where
  "invkind_of k = (case k of None \<Rightarrow> DISPATCH_METHOD | Some f \<Rightarrow> f)"

text \<open>
  Exceptions. \<^verbatim>\<open>COMError\<close> carries \<^verbatim>\<open>(hresult, text, details)\<close>; the others are the
  Python exceptions that the module raises itself or that a call can meet.
\<close>

datatype exn =
    COMError int string pyval
  | IndexError string
  | StopIteration
  | AttributeError string
  | TypeError string

text \<open>
  The constants of comtypes.hresult that the module names. The module they come from
  is not part of this file's source, so they are a parameter of the model.
\<close>

record hres =
  DISP_E_MEMBERNOTFOUND :: int
  DISP_E_BADPARAMCOUNT :: int
  DISP_E_PARAMNOTOPTIONAL :: int
  DISP_E_TYPEMISMATCH :: int
  E_INVALIDARG :: int

definition ERRORS_BAD_CONTEXT :: "hres \<Rightarrow> int list" where
  "ERRORS_BAD_CONTEXT H =
     [DISP_E_MEMBERNOTFOUND H,
      DISP_E_BADPARAMCOUNT H,
      DISP_E_PARAMNOTOPTIONAL H,
      DISP_E_TYPEMISMATCH H,
      E_INVALIDARG H]"

text \<open>
  A \<^verbatim>\<open>_Dispatch\<close> instance: its \<^verbatim>\<open>__dict__\<close> holds \<^verbatim>\<open>_comobj\<close>, \<^verbatim>\<open>_ids\<close> and whatever
  \<^verbatim>\<open>__getattr__\<close> stores under a member name (field \<open>dict\<close>).
\<close>

record dispatch =
  comobj :: comref
  ids :: "string \<rightharpoonup> int"
  dict :: "string \<rightharpoonup> pyval"

datatype pyobj =
    DispatchObj dispatch
  | MethodCallerObj int addr
  | CollectionObj comref

subsection \<open>The foreign side\<close>

datatype call =
    GetIDsOfNames_call comref string
  | Invoke_call comref int "pyval list" "invkind option"
  | QueryInterface_call comref iface
  | Skip_call comref int
  | Next_call comref int

text \<open>
  The COM object and its enumerators, as the module sees them through comtypes: each
  function takes the pointer it is called on, the arguments and the foreign state, and
  gives the result or the exception raised, with the new foreign state.
  \<^verbatim>\<open>QueryInterface\<close> gives a pointer of the interface asked for, \<^verbatim>\<open>Skip\<close> an HRESULT,
  \<^verbatim>\<open>Next(1)\<close> the pair \<^verbatim>\<open>(item, fetched)\<close>.
\<close>

record 'w foreign =
  GetIDsOfNames :: "comref \<Rightarrow> string \<Rightarrow> 'w \<Rightarrow> (exn + int list) \<times> 'w"
  Invoke :: "comref \<Rightarrow> int \<Rightarrow> pyval list \<Rightarrow> invkind option \<Rightarrow> 'w \<Rightarrow> (exn + pyval) \<times> 'w"
  QueryInterface :: "comref \<Rightarrow> iface \<Rightarrow> 'w \<Rightarrow> (exn + comref) \<times> 'w"
  Skip :: "comref \<Rightarrow> int \<Rightarrow> 'w \<Rightarrow> (exn + int) \<times> 'w"
  Next :: "comref \<Rightarrow> int \<Rightarrow> 'w \<Rightarrow> (exn + pyval \<times> int) \<times> 'w"

record 'w state =
  heap :: "pyobj list"
  world :: 'w
  trace :: "call list"

definition heap_at :: "pyobj list \<Rightarrow> addr \<Rightarrow> pyobj option" where
  "heap_at h a = (if a < length h then Some (h ! a) else None)"

definition alloc :: "pyobj \<Rightarrow> 'w state \<Rightarrow> addr \<times> 'w state" where
  "alloc obj st = (length (heap st), st\<lparr>heap := heap st @ [obj]\<rparr>)"

definition call_GetIDsOfNames ::
    "'w foreign \<Rightarrow> comref \<Rightarrow> string \<Rightarrow> 'w state \<Rightarrow> (exn + int list) \<times> 'w state" where
  "call_GetIDsOfNames F c name st =
     (case GetIDsOfNames F c name (world st) of
        (r, w) \<Rightarrow> (r, st\<lparr>world := w, trace := trace st @ [GetIDsOfNames_call c name]\<rparr>))"

definition call_Invoke ::
    "'w foreign \<Rightarrow> comref \<Rightarrow> int \<Rightarrow> pyval list \<Rightarrow> invkind option \<Rightarrow> 'w state
      \<Rightarrow> (exn + pyval) \<times> 'w state" where
  "call_Invoke F c dispid args kind st =
     (case Invoke F c dispid args kind (world st) of
        (r, w) \<Rightarrow> (r, st\<lparr>world := w, trace := trace st @ [Invoke_call c dispid args kind]\<rparr>))"

definition call_QueryInterface ::
    "'w foreign \<Rightarrow> comref \<Rightarrow> iface \<Rightarrow> 'w state \<Rightarrow> (exn + comref) \<times> 'w state" where
  "call_QueryInterface F c i st =
     (case QueryInterface F c i (world st) of
        (r, w) \<Rightarrow> (r, st\<lparr>world := w, trace := trace st @ [QueryInterface_call c i]\<rparr>))"

definition call_Skip ::
    "'w foreign \<Rightarrow> comref \<Rightarrow> int \<Rightarrow> 'w state \<Rightarrow> (exn + int) \<times> 'w state" where
  "call_Skip F c n st =
     (case Skip F c n (world st) of
        (r, w) \<Rightarrow> (r, st\<lparr>world := w, trace := trace st @ [Skip_call c n]\<rparr>))"

definition call_Next ::
    "'w foreign \<Rightarrow> comref \<Rightarrow> int \<Rightarrow> 'w state \<Rightarrow> (exn + pyval \<times> int) \<times> 'w state" where
  "call_Next F c n st =
     (case Next F c n (world st) of
        (r, w) \<Rightarrow> (r, st\<lparr>world := w, trace := trace st @ [Next_call c n]\<rparr>))"

subsection \<open>Dispatch\<close>

text \<open>
  \<^verbatim>\<open>Dispatch(obj)\<close>: a \<^verbatim>\<open>_Dispatch\<close> instance is returned as it is, a
  \<^verbatim>\<open>POINTER(IDispatch)\<close> is wrapped in a new \<^verbatim>\<open>_Dispatch\<close> (empty \<^verbatim>\<open>_ids\<close>), anything else
  is returned as it is.
\<close>

definition isinstance_Dispatch :: "pyobj list \<Rightarrow> pyval \<Rightarrow> bool" where
  "isinstance_Dispatch h obj =
     (case obj of
        Ref a \<Rightarrow> (case heap_at h a of Some (DispatchObj d) \<Rightarrow> True | _ \<Rightarrow> False)
      | _ \<Rightarrow> False)"

definition Dispatch_init :: "comref \<Rightarrow> dispatch" where
  "Dispatch_init c = \<lparr>comobj = c, ids = Map.empty, dict = Map.empty\<rparr>"

definition Dispatch :: "pyval \<Rightarrow> 'w state \<Rightarrow> pyval \<times> 'w state" where
  "Dispatch obj st =
     (if isinstance_Dispatch (heap st) obj then (obj, st)
      else (case obj of
              ComPtr IDispatch c \<Rightarrow>
                (case alloc (DispatchObj (Dispatch_init c)) st of (a, st1) \<Rightarrow> (Ref a, st1))
            | _ \<Rightarrow> (obj, st)))"

subsection \<open>_Dispatch: attribute read and write\<close>

text \<open>
  Lines 78-81 and 96-99, the same in \<^verbatim>\<open>__getattr__\<close> and \<^verbatim>\<open>__setattr__\<close>:
  \<^verbatim>\<open>dispid = self._ids.get(name)\<close>, and \<^verbatim>\<open>if not dispid\<close> asks the object and stores
  the first identifier of the answer. \<^verbatim>\<open>not dispid\<close> holds for \<^verbatim>\<open>None\<close> and for 0.
\<close>

definition py_not :: "int option \<Rightarrow> bool" where
  "py_not v = (case v of None \<Rightarrow> True | Some i \<Rightarrow> i = 0)"

definition set_ids :: "addr \<Rightarrow> string \<Rightarrow> int \<Rightarrow> 'w state \<Rightarrow> 'w state" where
  "set_ids self name dispid st =
     st\<lparr>heap := (heap st)[self :=
        (case heap st ! self of
           DispatchObj d \<Rightarrow> DispatchObj (d\<lparr>ids := (ids d)(name \<mapsto> dispid)\<rparr>)
         | obj \<Rightarrow> obj)]\<rparr>"

definition set_dict :: "addr \<Rightarrow> string \<Rightarrow> pyval \<Rightarrow> 'w state \<Rightarrow> 'w state" where
  "set_dict self name v st =
     st\<lparr>heap := (heap st)[self :=
        (case heap st ! self of
           DispatchObj d \<Rightarrow> DispatchObj (d\<lparr>dict := (dict d)(name \<mapsto> v)\<rparr>)
         | obj \<Rightarrow> obj)]\<rparr>"

definition resolve_dispid ::
    "'w foreign \<Rightarrow> addr \<Rightarrow> dispatch \<Rightarrow> string \<Rightarrow> 'w state \<Rightarrow> (exn + int) \<times> 'w state" where
  "resolve_dispid F self d name st =
     (if py_not (ids d name) then
        (case call_GetIDsOfNames F (comobj d) name st of
           (Inl e, st1) \<Rightarrow> (Inl e, st1)
         | (Inr [], st1) \<Rightarrow> (Inl (IndexError ''list index out of range''), st1)
         | (Inr (dispid # rest), st1) \<Rightarrow> (Inr dispid, set_ids self name dispid st1))
      else (Inr (the (ids d name)), st))"

text \<open>
  \<^verbatim>\<open>_Dispatch.__getattr__\<close>. A \<^verbatim>\<open>COMError\<close> of the property read whose code is in
  \<^verbatim>\<open>ERRORS_BAD_CONTEXT\<close> makes a \<^verbatim>\<open>MethodCaller\<close>, stored in \<^verbatim>\<open>__dict__\<close> under the
  name; every other exception is raised again.
\<close>

definition Dispatch_getattr ::
    "hres \<Rightarrow> 'w foreign \<Rightarrow> addr \<Rightarrow> string \<Rightarrow> 'w state \<Rightarrow> (exn + pyval) \<times> 'w state" where
  "Dispatch_getattr H F self name st =
     (case heap_at (heap st) self of
        Some (DispatchObj d) \<Rightarrow>
          (case resolve_dispid F self d name st of
             (Inl e, st1) \<Rightarrow> (Inl e, st1)
           | (Inr dispid, st1) \<Rightarrow>
               (case call_Invoke F (comobj d) dispid [] (Some DISPATCH_PROPERTYGET) st1 of
                  (Inr result, st2) \<Rightarrow> (Inr result, st2)
                | (Inl (COMError hresult text details), st2) \<Rightarrow>
                    (if hresult \<in> set (ERRORS_BAD_CONTEXT H) then
                       (case alloc (MethodCallerObj dispid self) st2 of
                          (a, st3) \<Rightarrow> (Inr (Ref a), set_dict self name (Ref a) st3))
                     else (Inl (COMError hresult text details), st2))
                | (Inl e, st2) \<Rightarrow> (Inl e, st2)))
      | _ \<Rightarrow> (Inl (TypeError ''_Dispatch instance expected''), st))"

text \<open>
  The attribute read \<^verbatim>\<open>proxy.name\<close>: Python looks the name up in the instance
  \<^verbatim>\<open>__dict__\<close> first and calls \<^verbatim>\<open>__getattr__\<close> only when it is not there. (Names bound
  on the class itself, its methods, are found before \<^verbatim>\<open>__getattr__\<close> as well; this
  function is the read of any other name.)
\<close>

definition attr_read ::
    "hres \<Rightarrow> 'w foreign \<Rightarrow> addr \<Rightarrow> string \<Rightarrow> 'w state \<Rightarrow> (exn + pyval) \<times> 'w state" where
  "attr_read H F self name st =
     (case heap_at (heap st) self of
        Some (DispatchObj d) \<Rightarrow>
          (if name = ''_comobj'' then (Inr (ComPtr IDispatch (comobj d)), st)
           else if name = ''_ids'' then (Inr (IdsRef self), st)
           else (case dict d name of
                   Some v \<Rightarrow> (Inr v, st)
                 | None \<Rightarrow> Dispatch_getattr H F self name st))
      | _ \<Rightarrow> (Inl (TypeError ''_Dispatch instance expected''), st))"

text \<open>
  \<^verbatim>\<open>_Dispatch.__setattr__\<close>: property put first; a \<^verbatim>\<open>COMError\<close> with
  \<^verbatim>\<open>DISP_E_MEMBERNOTFOUND\<close> is passed over and the put is made by reference, every other
  exception is raised again. Both calls are \<^verbatim>\<open>return\<close> statements: the method gives
  back what \<^verbatim>\<open>Invoke\<close> gave.
\<close>

definition Dispatch_setattr ::
    "hres \<Rightarrow> 'w foreign \<Rightarrow> addr \<Rightarrow> string \<Rightarrow> pyval \<Rightarrow> 'w state \<Rightarrow> (exn + pyval) \<times> 'w state" where
  "Dispatch_setattr H F self name v st =
     (case heap_at (heap st) self of
        Some (DispatchObj d) \<Rightarrow>
          (case resolve_dispid F self d name st of
             (Inl e, st1) \<Rightarrow> (Inl e, st1)
           | (Inr dispid, st1) \<Rightarrow>
               (case call_Invoke F (comobj d) dispid [v] (Some DISPATCH_PROPERTYPUT) st1 of
                  (Inr r, st2) \<Rightarrow> (Inr r, st2)
                | (Inl (COMError hresult text details), st2) \<Rightarrow>
                    (if hresult = DISP_E_MEMBERNOTFOUND H then
                       call_Invoke F (comobj d) dispid [v] (Some DISPATCH_PROPERTYPUTREF) st2
                     else (Inl (COMError hresult text details), st2))
                | (Inl e, st2) \<Rightarrow> (Inl e, st2)))
      | _ \<Rightarrow> (Inl (TypeError ''_Dispatch instance expected''), st))"

text \<open>
  The assignment statement \<^verbatim>\<open>proxy.name = value\<close>: Python calls \<^verbatim>\<open>__setattr__\<close> for every
  name (the class overrides it) and drops what the method returns; the statement
  either completes or raises.
\<close>

definition attr_write ::
    "hres \<Rightarrow> 'w foreign \<Rightarrow> addr \<Rightarrow> string \<Rightarrow> pyval \<Rightarrow> 'w state \<Rightarrow> exn option \<times> 'w state" where
  "attr_write H F self name v st =
     (case Dispatch_setattr H F self name v st of
        (Inl ex, st1) \<Rightarrow> (Some ex, st1)
      | (Inr r, st1) \<Rightarrow> (None, st1))"

subsection \<open>_Dispatch: enumeration, indexing, iteration\<close>

text \<open>
  \<^verbatim>\<open>_Dispatch.QueryInterface\<close> forwards to the COM object.
\<close>

definition Dispatch_QueryInterface ::
    "'w foreign \<Rightarrow> addr \<Rightarrow> iface \<Rightarrow> 'w state \<Rightarrow> (exn + comref) \<times> 'w state" where
  "Dispatch_QueryInterface F self i st =
     (case heap_at (heap st) self of
        Some (DispatchObj d) \<Rightarrow> call_QueryInterface F (comobj d) i st
      | _ \<Rightarrow> (Inl (TypeError ''_Dispatch instance expected''), st))"

text \<open>
  \<^verbatim>\<open>e.QueryInterface(...)\<close> on the value that \<^verbatim>\<open>Invoke(-4)\<close> gave: a COM pointer has the
  method, a \<^verbatim>\<open>_Dispatch\<close> forwards it, nothing else has such an attribute.
\<close>

definition value_QueryInterface ::
    "'w foreign \<Rightarrow> pyval \<Rightarrow> iface \<Rightarrow> 'w state \<Rightarrow> (exn + comref) \<times> 'w state" where
  "value_QueryInterface F e i st =
     (case e of
        ComPtr j c \<Rightarrow> call_QueryInterface F c i st
      | Ref a \<Rightarrow>
          (case heap_at (heap st) a of
             Some (DispatchObj d) \<Rightarrow> Dispatch_QueryInterface F a i st
           | _ \<Rightarrow> (Inl (AttributeError ''QueryInterface''), st))
      | _ \<Rightarrow> (Inl (AttributeError ''QueryInterface''), st))"

text \<open>
  \<^verbatim>\<open>_Dispatch.__enum\<close>: \<^verbatim>\<open>Invoke(-4)\<close> (DISPID_NEWENUM, no \<^verbatim>\<open>_invkind\<close>), then
  \<^verbatim>\<open>QueryInterface(IEnumVARIANT)\<close> on the result.
\<close>

definition Dispatch_enum ::
    "'w foreign \<Rightarrow> addr \<Rightarrow> 'w state \<Rightarrow> (exn + comref) \<times> 'w state" where
  "Dispatch_enum F self st =
     (case heap_at (heap st) self of
        Some (DispatchObj d) \<Rightarrow>
          (case call_Invoke F (comobj d) (- 4) [] None st of
             (Inl ex, st1) \<Rightarrow> (Inl ex, st1)
           | (Inr e, st1) \<Rightarrow> value_QueryInterface F e IEnumVARIANT st1)
      | _ \<Rightarrow> (Inl (TypeError ''_Dispatch instance expected''), st))"

text \<open>
  Lines 66-69 of \<^verbatim>\<open>__getitem__\<close>: \<^verbatim>\<open>item, fetched = enum.Next(1)\<close>, and
  \<^verbatim>\<open>IndexError\<close> when nothing was fetched.
\<close>

definition fetch_item ::
    "'w foreign \<Rightarrow> comref \<Rightarrow> 'w state \<Rightarrow> (exn + pyval) \<times> 'w state" where
  "fetch_item F enum st =
     (case call_Next F enum 1 st of
        (Inl ex, st1) \<Rightarrow> (Inl ex, st1)
      | (Inr (item, fetched), st1) \<Rightarrow>
          (if fetched = 0 then (Inl (IndexError ''index out of range''), st1)
           else (Inr item, st1)))"

text \<open>
  \<^verbatim>\<open>_Dispatch.__getitem__\<close>: a new enumerator; \<^verbatim>\<open>Skip(index)\<close> only when
  \<^verbatim>\<open>index > 0\<close>, with \<^verbatim>\<open>IndexError\<close> when its result is not 0; then one item.
\<close>

definition Dispatch_getitem ::
    "'w foreign \<Rightarrow> addr \<Rightarrow> int \<Rightarrow> 'w state \<Rightarrow> (exn + pyval) \<times> 'w state" where
  "Dispatch_getitem F self index st =
     (case Dispatch_enum F self st of
        (Inl ex, st1) \<Rightarrow> (Inl ex, st1)
      | (Inr enum, st1) \<Rightarrow>
          (if index > 0 then
             (case call_Skip F enum index st1 of
                (Inl ex, st2) \<Rightarrow> (Inl ex, st2)
              | (Inr r, st2) \<Rightarrow>
                  (if 0 \<noteq> r then (Inl (IndexError ''index out of range''), st2)
                   else fetch_item F enum st2))
           else fetch_item F enum st1))"

text \<open>\<^verbatim>\<open>_Dispatch.__iter__\<close>: a \<^verbatim>\<open>_Collection\<close> around a new enumerator.\<close>

definition Dispatch_iter ::
    "'w foreign \<Rightarrow> addr \<Rightarrow> 'w state \<Rightarrow> (exn + pyval) \<times> 'w state" where
  "Dispatch_iter F self st =
     (case Dispatch_enum F self st of
        (Inl ex, st1) \<Rightarrow> (Inl ex, st1)
      | (Inr enum, st1) \<Rightarrow>
          (case alloc (CollectionObj enum) st1 of (a, st2) \<Rightarrow> (Inr (Ref a), st2)))"

text \<open>\<^verbatim>\<open>_Collection.next\<close>: one \<^verbatim>\<open>Next(1)\<close>; the item, or \<^verbatim>\<open>StopIteration\<close>.\<close>

definition Collection_next ::
    "'w foreign \<Rightarrow> addr \<Rightarrow> 'w state \<Rightarrow> (exn + pyval) \<times> 'w state" where
  "Collection_next F self st =
     (case heap_at (heap st) self of
        Some (CollectionObj enum) \<Rightarrow>
          (case call_Next F enum 1 st of
             (Inl ex, st1) \<Rightarrow> (Inl ex, st1)
           | (Inr (item, fetched), st1) \<Rightarrow>
               (if fetched \<noteq> 0 then (Inr item, st1) else (Inl StopIteration, st1)))
      | _ \<Rightarrow> (Inl (TypeError ''_Collection instance expected''), st))"

text \<open>
  Python's iteration protocol over a \<^verbatim>\<open>_Collection\<close> (a \<^verbatim>\<open>for\<close> loop that collects the
  items): \<^verbatim>\<open>next()\<close> is called until it raises; \<^verbatim>\<open>StopIteration\<close> ends the loop
  normally, any other exception leaves it. An enumerator need never run out, so the
  loop takes fuel: \<open>None\<close> means that the fuel did not suffice.
\<close>

fun iterate ::
    "'w foreign \<Rightarrow> addr \<Rightarrow> nat \<Rightarrow> 'w state \<Rightarrow> ((exn + pyval list) \<times> 'w state) option" where
  "iterate F it 0 st = None"
| "iterate F it (Suc n) st =
     (case Collection_next F it st of
        (Inl StopIteration, st1) \<Rightarrow> Some (Inr [], st1)
      | (Inl ex, st1) \<Rightarrow> Some (Inl ex, st1)
      | (Inr x, st1) \<Rightarrow>
          (case iterate F it n st1 of
             None \<Rightarrow> None
           | Some (Inl ex, st2) \<Rightarrow> Some (Inl ex, st2)
           | Some (Inr xs, st2) \<Rightarrow> Some (Inr (x # xs), st2)))"

subsection \<open>MethodCaller\<close>

text \<open>
  \<^verbatim>\<open>self._obj._comobj\<close> of a \<^verbatim>\<open>MethodCaller\<close>: the COM object of the proxy that made it.
\<close>

definition MethodCaller_comobj :: "pyobj list \<Rightarrow> addr \<Rightarrow> exn + (int \<times> comref)" where
  "MethodCaller_comobj h self =
     (case heap_at h self of
        Some (MethodCallerObj dispid obj) \<Rightarrow>
          (case heap_at h obj of
             Some (DispatchObj d) \<Rightarrow> Inr (dispid, comobj d)
           | _ \<Rightarrow> Inl (AttributeError ''_comobj''))
      | _ \<Rightarrow> Inl (TypeError ''MethodCaller instance expected''))"

text \<open>\<^verbatim>\<open>MethodCaller.__call__\<close>: \<^verbatim>\<open>Invoke(self._id, *args)\<close>, no \<^verbatim>\<open>_invkind\<close>.\<close>

definition MethodCaller_call ::
    "'w foreign \<Rightarrow> addr \<Rightarrow> pyval list \<Rightarrow> 'w state \<Rightarrow> (exn + pyval) \<times> 'w state" where
  "MethodCaller_call F self args st =
     (case MethodCaller_comobj (heap st) self of
        Inl ex \<Rightarrow> (Inl ex, st)
      | Inr (dispid, c) \<Rightarrow> call_Invoke F c dispid args None st)"

text \<open>\<^verbatim>\<open>MethodCaller.__getitem__\<close>: a property read with the arguments.\<close>

definition MethodCaller_getitem ::
    "'w foreign \<Rightarrow> addr \<Rightarrow> pyval list \<Rightarrow> 'w state \<Rightarrow> (exn + pyval) \<times> 'w state" where
  "MethodCaller_getitem F self args st =
     (case MethodCaller_comobj (heap st) self of
        Inl ex \<Rightarrow> (Inl ex, st)
      | Inr (dispid, c) \<Rightarrow> call_Invoke F c dispid args (Some DISPATCH_PROPERTYGET) st)"

text \<open>
  \<^verbatim>\<open>MethodCaller.__setitem__\<close>: \<^verbatim>\<open>_is_object(args[-1])\<close> chooses the kind of the single
  \<^verbatim>\<open>Invoke\<close>; the method has no \<^verbatim>\<open>return\<close>, so it gives \<^verbatim>\<open>None\<close>. \<^verbatim>\<open>_is_object\<close> is
  imported from the comtypes package and is a parameter here (it may look at the store
  to see what a reference points to). \<^verbatim>\<open>args[-1]\<close> of an empty tuple raises.
\<close>

definition MethodCaller_setitem ::
    "(pyobj list \<Rightarrow> pyval \<Rightarrow> bool) \<Rightarrow> 'w foreign \<Rightarrow> addr \<Rightarrow> pyval list \<Rightarrow> 'w state
      \<Rightarrow> (exn + pyval) \<times> 'w state" where
  "MethodCaller_setitem is_object F self args st =
     (if args = [] then (Inl (IndexError ''tuple index out of range''), st)
      else
        (case MethodCaller_comobj (heap st) self of
           Inl ex \<Rightarrow> (Inl ex, st)
         | Inr (dispid, c) \<Rightarrow>
             (case call_Invoke F c dispid args
                     (Some (if is_object (heap st) (last args) then DISPATCH_PROPERTYPUTREF
                            else DISPATCH_PROPERTYPUT)) st of
                (Inl ex, st1) \<Rightarrow> (Inl ex, st1)
              | (Inr r, st1) \<Rightarrow> (Inr PyNone, st1))))"

subsection \<open>Test doubles\<close>

text \<open>
  The values that comtypes.hresult gives the five codes (the HRESULTs of the Windows
  headers, read as signed 32-bit numbers), for the examples below.
\<close>

definition hres_win :: hres where
  "hres_win =
     \<lparr>DISP_E_MEMBERNOTFOUND = - 2147352573,
      DISP_E_BADPARAMCOUNT = - 2147352562,
      DISP_E_PARAMNOTOPTIONAL = - 2147352561,
      DISP_E_TYPEMISMATCH = - 2147352571,
      E_INVALIDARG = - 2147024809\<rparr>"

text \<open>
  A collection double: the COM object holds a sequence of items and hands out a new
  enumerator, positioned at the start, for every \<^verbatim>\<open>Invoke(-4)\<close>. Enumerator \<open>k\<close> is the
  \<open>k\<close>-th cursor. \<^verbatim>\<open>Skip(n)\<close> follows the \<^verbatim>\<open>IEnumVARIANT\<close> contract that line 64 of the
  module reads: 0 (S_OK) when \<open>n\<close> items were skipped, 1 (S_FALSE) when fewer were left.
  \<^verbatim>\<open>Next(1)\<close> gives the item under the cursor and 1, or \<^verbatim>\<open>None\<close> and 0 at the end.
\<close>

record coll_world =
  items :: "pyval list"
  cursors :: "nat list"

definition coll_Invoke ::
    "comref \<Rightarrow> int \<Rightarrow> pyval list \<Rightarrow> invkind option \<Rightarrow> coll_world \<Rightarrow> (exn + pyval) \<times> coll_world" where
  "coll_Invoke c dispid args kind w =
     (if dispid = - 4 then
        (Inr (ComPtr IUnknown (length (cursors w))), w\<lparr>cursors := cursors w @ [0]\<rparr>)
      else (Inl (COMError (- 2147352573) ''Member not found.'' PyNone), w))"

definition coll_Skip :: "comref \<Rightarrow> int \<Rightarrow> coll_world \<Rightarrow> (exn + int) \<times> coll_world" where
  "coll_Skip k n w =
     (if k < length (cursors w) then
        (if cursors w ! k + nat n \<le> length (items w)
         then (Inr 0, w\<lparr>cursors := (cursors w)[k := cursors w ! k + nat n]\<rparr>)
         else (Inr 1, w\<lparr>cursors := (cursors w)[k := length (items w)]\<rparr>))
      else (Inl (COMError (- 2147467261) ''Invalid pointer'' PyNone), w))"

definition coll_Next :: "comref \<Rightarrow> int \<Rightarrow> coll_world \<Rightarrow> (exn + pyval \<times> int) \<times> coll_world" where
  "coll_Next k n w =
     (if k < length (cursors w) then
        (if cursors w ! k < length (items w)
         then (Inr (items w ! (cursors w ! k), 1), w\<lparr>cursors := (cursors w)[k := Suc (cursors w ! k)]\<rparr>)
         else (Inr (PyNone, 0), w))
      else (Inl (COMError (- 2147467261) ''Invalid pointer'' PyNone), w))"

definition coll_double :: "coll_world foreign" where
  "coll_double =
     \<lparr>GetIDsOfNames = (\<lambda>c name w. (Inl (COMError (- 2147352570) ''Unknown name.'' PyNone), w)),
      Invoke = coll_Invoke,
      QueryInterface = (\<lambda>c i w. (Inr c, w)),
      Skip = coll_Skip,
      Next = coll_Next\<rparr>"

definition abc_world :: coll_world where
  "abc_world = \<lparr>items = [PyStr ''A'', PyStr ''B'', PyStr ''C''], cursors = []\<rparr>"

definition ab_world :: coll_world where
  "ab_world = \<lparr>items = [PyStr ''A'', PyStr ''B''], cursors = []\<rparr>"

text \<open>
  A member double without state: \<^verbatim>\<open>Item\<close> has the identifier 0 (DISPID_VALUE) and can
  be read; \<^verbatim>\<open>Foo\<close> (7) is a method, its property read is refused with
  DISP_E_MEMBERNOTFOUND; \<^verbatim>\<open>Bar\<close> (8) takes a put by reference only; every call on
  \<^verbatim>\<open>Baz\<close> (9) fails with E_FAIL; a call on \<^verbatim>\<open>Value\<close> (5) answers 7.
\<close>

definition member_GetIDsOfNames :: "comref \<Rightarrow> string \<Rightarrow> unit \<Rightarrow> (exn + int list) \<times> unit" where
  "member_GetIDsOfNames c name w =
     (if name = ''Item'' then (Inr [0], w)
      else if name = ''Foo'' then (Inr [7], w)
      else if name = ''Bar'' then (Inr [8], w)
      else if name = ''Baz'' then (Inr [9], w)
      else if name = ''Value'' then (Inr [5], w)
      else (Inl (COMError (- 2147352570) ''Unknown name.'' PyNone), w))"

definition member_Invoke ::
    "comref \<Rightarrow> int \<Rightarrow> pyval list \<Rightarrow> invkind option \<Rightarrow> unit \<Rightarrow> (exn + pyval) \<times> unit" where
  "member_Invoke c dispid args kind w =
     (if dispid = 0 then (Inr (PyStr ''first''), w)
      else if dispid = 7 then
        (if kind = None then (Inr (PyInt 42), w)
         else (Inl (COMError (- 2147352573) ''Member not found.'' PyNone), w))
      else if dispid = 8 then
        (if kind = Some DISPATCH_PROPERTYPUTREF then (Inr PyNone, w)
         else (Inl (COMError (- 2147352573) ''Member not found.'' PyNone), w))
      else if dispid = 9 then
        (Inl (COMError (- 2147467259) ''Unspecified error'' (PyStr ''source'')), w)
      else if dispid = 5 then (Inr (PyInt 7), w)
      else (Inl (COMError (- 2147352573) ''Member not found.'' PyNone), w))"

definition member_double :: "unit foreign" where
  "member_double =
     \<lparr>GetIDsOfNames = member_GetIDsOfNames,
      Invoke = member_Invoke,
      QueryInterface = (\<lambda>c i w. (Inr c, w)),
      Skip = (\<lambda>c n w. (Inr 1, w)),
      Next = (\<lambda>c n w. (Inr (PyNone, 0), w))\<rparr>"

text \<open>A state with one proxy, at address 0, made by \<^verbatim>\<open>Dispatch\<close> around COM object 0.\<close>

definition fresh_proxy :: "'w \<Rightarrow> 'w state" where
  "fresh_proxy w = snd (Dispatch (ComPtr IDispatch 0) \<lparr>heap = [], world = w, trace = []\<rparr>)"

text \<open>
  The collection of two items under iteration: the state after \<^verbatim>\<open>__iter__\<close> and two
  \<^verbatim>\<open>next()\<close> calls on the iterator (at address 1), and the state after the third.
\<close>

definition ab_two_fetched :: "coll_world state" where
  "ab_two_fetched =
     snd (Collection_next coll_double 1
       (snd (Collection_next coll_double 1
         (snd (Dispatch_iter coll_double 0 (fresh_proxy ab_world))))))"

definition ab_exhausted :: "coll_world state" where
  "ab_exhausted = snd (Collection_next coll_double 1 ab_two_fetched)"

text \<open>
  A stand-in for \<^verbatim>\<open>comtypes._is_object\<close> in the examples: a COM pointer is an object,
  and so is a proxy (it has a \<^verbatim>\<open>_comobj\<close>).
\<close>

definition com_is_object :: "pyobj list \<Rightarrow> pyval \<Rightarrow> bool" where
  "com_is_object h v =
     (case v of
        ComPtr i c \<Rightarrow> True
      | Ref a \<Rightarrow> isinstance_Dispatch h v
      | _ \<Rightarrow> False)"

section \<open>Properties\<close>

subsection \<open>Auxiliary facts\<close>

lemma coll_double_sel:
  "Invoke coll_double = coll_Invoke"
  "QueryInterface coll_double = (\<lambda>c i w. (Inr c, w))"
  "Skip coll_double = coll_Skip"
  "Next coll_double = coll_Next"
  by (simp_all add: coll_double_def)

lemma member_double_sel:
  "GetIDsOfNames member_double = member_GetIDsOfNames"
  "Invoke member_double = member_Invoke"
  by (simp_all add: member_double_def)

lemma fresh_proxy_eq:
  "fresh_proxy w = \<lparr>heap = [DispatchObj \<lparr>comobj = 0, ids = Map.empty, dict = Map.empty\<rparr>], world = w, trace = []\<rparr>"
  by (simp add: fresh_proxy_def Dispatch_def isinstance_Dispatch_def alloc_def Dispatch_init_def)

lemma fresh_proxy_at:
  "heap_at (heap (fresh_proxy w)) 0 = Some (DispatchObj (Dispatch_init 0))"
  by (simp add: fresh_proxy_eq heap_at_def Dispatch_init_def)

lemma resolve_dispid_trace:
  assumes "resolve_dispid F self d name st = (r, st1)"
  shows "world st1 = world st \<and> trace st1 = trace st \<and> heap st1 = heap st \<and> \<not> py_not (ids d name)
       \<or> trace st1 = trace st @ [GetIDsOfNames_call (comobj d) name] \<and> py_not (ids d name)"
  using assms
  by (auto simp: resolve_dispid_def call_GetIDsOfNames_def set_ids_def
      split: if_splits prod.splits sum.splits list.splits)

lemma resolve_dispid_heap:
  assumes "resolve_dispid F self d name st = (r, st1)"
    and "heap_at (heap st) self = Some (DispatchObj d)"
  shows "length (heap st1) = length (heap st)"
    and "a \<noteq> self \<Longrightarrow> heap_at (heap st1) a = heap_at (heap st) a"
    and "\<exists>d1. heap_at (heap st1) self = Some (DispatchObj d1) \<and> comobj d1 = comobj d \<and>
           dict d1 = dict d \<and> (ids d1 = ids d \<or> (\<exists>i. r = Inr i \<and> ids d1 = (ids d)(name \<mapsto> i)))"
  using assms
  by (auto simp: resolve_dispid_def call_GetIDsOfNames_def set_ids_def heap_at_def
      split: if_splits prod.splits sum.splits list.splits)

lemma resolve_dispid_cached:
  assumes "ids d name = Some i" and "i \<noteq> 0"
  shows "resolve_dispid F self d name st = (Inr i, st)"
  using assms by (simp add: resolve_dispid_def py_not_def)

lemma resolve_dispid_stores:
  assumes "resolve_dispid F self d name st = (Inr i, st1)"
    and "heap_at (heap st) self = Some (DispatchObj d)"
  shows "\<exists>d1. heap_at (heap st1) self = Some (DispatchObj d1) \<and> ids d1 name = Some i"
  using assms
  by (auto simp: resolve_dispid_def call_GetIDsOfNames_def set_ids_def heap_at_def py_not_def
      split: if_splits prod.splits sum.splits list.splits option.splits)

lemma resolve_member_double:
  "ids d name = None \<Longrightarrow>
   resolve_dispid member_double self d name st =
     (case fst (member_GetIDsOfNames (comobj d) name ()) of
        Inl e \<Rightarrow> (Inl e, st\<lparr>world := (), trace := trace st @ [GetIDsOfNames_call (comobj d) name]\<rparr>)
      | Inr [] \<Rightarrow> (Inl (IndexError ''list index out of range''),
                  st\<lparr>world := (), trace := trace st @ [GetIDsOfNames_call (comobj d) name]\<rparr>)
      | Inr (i # rest) \<Rightarrow> (Inr i, set_ids self name i
                  (st\<lparr>world := (), trace := trace st @ [GetIDsOfNames_call (comobj d) name]\<rparr>)))"
  by (simp add: resolve_dispid_def py_not_def call_GetIDsOfNames_def member_double_sel
      split: prod.splits sum.splits list.splits)

lemma coll_enum:
  assumes "heap_at (heap st) self = Some (DispatchObj d)"
  shows "Dispatch_enum coll_double self st =
     (Inr (length (cursors (world st))),
      st\<lparr>world := (world st)\<lparr>cursors := cursors (world st) @ [0]\<rparr>,
         trace := trace st @ [Invoke_call (comobj d) (- 4) [] None,
                              QueryInterface_call (length (cursors (world st))) IEnumVARIANT]\<rparr>)"
  using assms
  by (simp add: Dispatch_enum_def call_Invoke_def value_QueryInterface_def
      call_QueryInterface_def coll_double_sel coll_Invoke_def)

lemma coll_fetch:
  assumes "k < length (cursors (world st))"
  shows "fetch_item coll_double k st =
     (if cursors (world st) ! k < length (items (world st))
      then (Inr (items (world st) ! (cursors (world st) ! k)),
            st\<lparr>world := (world st)\<lparr>cursors := (cursors (world st))[k := Suc (cursors (world st) ! k)]\<rparr>,
               trace := trace st @ [Next_call k 1]\<rparr>)
      else (Inl (IndexError ''index out of range''),
            st\<lparr>world := world st, trace := trace st @ [Next_call k 1]\<rparr>))"
  using assms
  by (simp add: fetch_item_def call_Next_def coll_double_sel coll_Next_def)

lemma coll_next:
  assumes "heap_at (heap st) it = Some (CollectionObj k)" and "k < length (cursors (world st))"
  shows "Collection_next coll_double it st =
     (if cursors (world st) ! k < length (items (world st))
      then (Inr (items (world st) ! (cursors (world st) ! k)),
            st\<lparr>world := (world st)\<lparr>cursors := (cursors (world st))[k := Suc (cursors (world st) ! k)]\<rparr>,
               trace := trace st @ [Next_call k 1]\<rparr>)
      else (Inl StopIteration,
            st\<lparr>world := world st, trace := trace st @ [Next_call k 1]\<rparr>))"
  using assms
  by (simp add: Collection_next_def call_Next_def coll_double_sel coll_Next_def)

lemma coll_next_exhausted:
  assumes "heap_at (heap st) it = Some (CollectionObj k)"
    and "k < length (cursors (world st))"
    and "length (items (world st)) \<le> cursors (world st) ! k"
  shows "((\<lambda>s. snd (Collection_next coll_double it s)) ^^ j) st =
           st\<lparr>trace := trace st @ replicate j (Next_call k 1)\<rparr>"
    and "fst (Collection_next coll_double it
           (((\<lambda>s. snd (Collection_next coll_double it s)) ^^ j) st)) = Inl StopIteration"
proof -
  show a: "((\<lambda>s. snd (Collection_next coll_double it s)) ^^ j) st =
           st\<lparr>trace := trace st @ replicate j (Next_call k 1)\<rparr>" for j
  proof (induction j)
    case 0
    show ?case by simp
  next
    case (Suc j)
    then show ?case
      using assms by (simp add: coll_next replicate_append_same)
  qed
  show "fst (Collection_next coll_double it
           (((\<lambda>s. snd (Collection_next coll_double it s)) ^^ j) st)) = Inl StopIteration"
    using assms by (simp add: a coll_next)
qed

lemma coll_iter:
  assumes "heap_at (heap st) self = Some (DispatchObj d)"
  shows "Dispatch_iter coll_double self st =
     (Inr (Ref (length (heap st))),
      st\<lparr>heap := heap st @ [CollectionObj (length (cursors (world st)))],
         world := (world st)\<lparr>cursors := cursors (world st) @ [0]\<rparr>,
         trace := trace st @ [Invoke_call (comobj d) (- 4) [] None,
                              QueryInterface_call (length (cursors (world st))) IEnumVARIANT]\<rparr>)"
  using assms by (simp add: Dispatch_iter_def coll_enum alloc_def)

text \<open>
  An identifier in the cache that is not 0 is used as it is: neither a read nor a write
  of the name asks the COM object for it again.
\<close>

lemma cached_dispid_reused:
  assumes "heap_at (heap st) self = Some (DispatchObj d)"
    and "ids d name = Some i" and "i \<noteq> 0"
  shows "GetIDsOfNames_call c n \<notin>
           set (drop (length (trace st)) (trace (snd (attr_read H F self name st))))"
    and "GetIDsOfNames_call c n \<notin>
           set (drop (length (trace st)) (trace (snd (Dispatch_setattr H F self name v st))))"
  using assms
  by (auto simp: attr_read_def Dispatch_getattr_def Dispatch_setattr_def resolve_dispid_cached
      call_Invoke_def alloc_def set_dict_def
      split: prod.splits sum.splits exn.splits option.splits if_splits)

subsection \<open>The identifier cache\<close>

text \<open>
  Claim C1. A name whose identifier was resolved once is never resolved again on the same
  proxy, whatever identifier the resolution gave. This fails for the identifier 0: the
  cache holds it, but \<^verbatim>\<open>if not dispid\<close> takes the cached 0 for a missing entry. On the
  member double, whose \<^verbatim>\<open>Item\<close> has the identifier 0, the first read stores
  \<^verbatim>\<open>Item\<close> \<open>\<mapsto>\<close> 0, and the second read and a following write each call
  \<^verbatim>\<open>GetIDsOfNames\<close> once more.
\<close>

theorem dispid_zero_resolved_again:
  "trace (snd (attr_read hres_win member_double 0 ''Item'' (fresh_proxy ()))) =
     [GetIDsOfNames_call 0 ''Item'', Invoke_call 0 0 [] (Some DISPATCH_PROPERTYGET)] \<and>
   heap (snd (attr_read hres_win member_double 0 ''Item'' (fresh_proxy ()))) =
     [DispatchObj \<lparr>comobj = 0, ids = [''Item'' \<mapsto> 0], dict = Map.empty\<rparr>] \<and>
   trace (snd (attr_read hres_win member_double 0 ''Item''
            (snd (attr_read hres_win member_double 0 ''Item'' (fresh_proxy ()))))) =
     [GetIDsOfNames_call 0 ''Item'', Invoke_call 0 0 [] (Some DISPATCH_PROPERTYGET),
      GetIDsOfNames_call 0 ''Item'', Invoke_call 0 0 [] (Some DISPATCH_PROPERTYGET)] \<and>
   trace (snd (Dispatch_setattr hres_win member_double 0 ''Item'' (PyInt 1)
            (snd (attr_read hres_win member_double 0 ''Item'' (fresh_proxy ()))))) =
     [GetIDsOfNames_call 0 ''Item'', Invoke_call 0 0 [] (Some DISPATCH_PROPERTYGET),
      GetIDsOfNames_call 0 ''Item'', Invoke_call 0 0 [PyInt 1] (Some DISPATCH_PROPERTYPUT)]"
  by (simp add: fresh_proxy_eq attr_read_def Dispatch_getattr_def Dispatch_setattr_def
      resolve_dispid_def py_not_def call_GetIDsOfNames_def call_Invoke_def set_ids_def
      heap_at_def member_double_sel member_GetIDsOfNames_def member_Invoke_def)

subsection \<open>Attribute read\<close>

text \<open>
  Claim C2. When the property read of a name is refused with a code of
  \<^verbatim>\<open>ERRORS_BAD_CONTEXT\<close>, the read of the name gives a new \<^verbatim>\<open>MethodCaller\<close> bound to the
  proxy and to the resolved identifier. Calling it makes one \<^verbatim>\<open>Invoke\<close> on that
  identifier with the arguments and no \<^verbatim>\<open>_invkind\<close> (a method call) and gives its
  result or exception. A later read of the name on the proxy gives the same object
  and makes no foreign call: the state is unchanged.
\<close>

theorem getattr_bad_context_bound_member:
  assumes proxy: "heap_at (heap st) self = Some (DispatchObj d)"
    and notdict: "name \<noteq> ''_comobj''" "name \<noteq> ''_ids''" "dict d name = None"
    and resolved: "resolve_dispid F self d name st = (Inr dispid, st1)"
    and refused: "Invoke F (comobj d) dispid [] (Some DISPATCH_PROPERTYGET) (world st1) =
                    (Inl (COMError hresult text details), w2)"
    and bad: "hresult \<in> set (ERRORS_BAD_CONTEXT H)"
  shows "\<exists>st2. attr_read H F self name st = (Inr (Ref (length (heap st))), st2) \<and>
           heap_at (heap st) (length (heap st)) = None \<and>
           heap_at (heap st2) (length (heap st)) = Some (MethodCallerObj dispid self) \<and>
           trace st2 = trace st1 @ [Invoke_call (comobj d) dispid [] (Some DISPATCH_PROPERTYGET)] \<and>
           (\<forall>args st3. heap st3 = heap st2 \<longrightarrow>
              MethodCaller_call F (length (heap st)) args st3 =
                (case Invoke F (comobj d) dispid args None (world st3) of
                   (r, w) \<Rightarrow> (r, st3\<lparr>world := w,
                                     trace := trace st3 @ [Invoke_call (comobj d) dispid args None]\<rparr>))) \<and>
           invkind_of None = DISPATCH_METHOD \<and>
           (\<forall>st3. heap st3 = heap st2 \<longrightarrow>
              attr_read H F self name st3 = (Inr (Ref (length (heap st))), st3))"
proof -
  let ?a = "length (heap st)"
  let ?get = "Invoke_call (comobj d) dispid [] (Some DISPATCH_PROPERTYGET)"
  from resolve_dispid_heap(1) [OF resolved proxy] have len: "length (heap st1) = ?a" .
  from resolve_dispid_heap(3) [OF resolved proxy] obtain d1 where
    d1: "heap_at (heap st1) self = Some (DispatchObj d1)" "comobj d1 = comobj d" "dict d1 = dict d"
    by blast
  from proxy have lt: "self < ?a"
    by (simp add: heap_at_def split: if_splits)
  let ?st2 = "set_dict self name (Ref ?a)
     (snd (alloc (MethodCallerObj dispid self) (st1\<lparr>world := w2, trace := trace st1 @ [?get]\<rparr>)))"
  have rd: "attr_read H F self name st = (Inr (Ref ?a), ?st2)"
    using assms len
    by (simp add: attr_read_def Dispatch_getattr_def call_Invoke_def alloc_def)
  have hp: "heap ?st2 = (heap st1 @ [MethodCallerObj dispid self])
              [self := DispatchObj (d1\<lparr>dict := (dict d1)(name \<mapsto> Ref ?a)\<rparr>)]"
    using d1 lt len
    by (simp add: set_dict_def alloc_def heap_at_def nth_append split: if_splits)
  have mc: "heap_at (heap ?st2) ?a = Some (MethodCallerObj dispid self)"
    using lt len by (simp add: hp heap_at_def nth_append)
  have px: "heap_at (heap ?st2) self = Some (DispatchObj (d1\<lparr>dict := (dict d1)(name \<mapsto> Ref ?a)\<rparr>))"
    using lt len by (simp add: hp heap_at_def)
  have tr: "trace ?st2 = trace st1 @ [?get]"
    by (simp add: set_dict_def alloc_def)
  have call: "MethodCaller_call F ?a args st3 =
      (case Invoke F (comobj d) dispid args None (world st3) of
         (r, w) \<Rightarrow> (r, st3\<lparr>world := w, trace := trace st3 @ [Invoke_call (comobj d) dispid args None]\<rparr>))"
    if "heap st3 = heap ?st2" for args st3
    using that mc px d1(2)
    by (simp add: MethodCaller_call_def MethodCaller_comobj_def call_Invoke_def)
  have again: "attr_read H F self name st3 = (Inr (Ref ?a), st3)" if "heap st3 = heap ?st2" for st3
    using that px notdict by (simp add: attr_read_def)
  have none: "heap_at (heap st) ?a = None"
    by (simp add: heap_at_def)
  from rd none mc tr call again show ?thesis
    by (intro exI [of _ ?st2]) (simp add: invkind_of_def)
qed

theorem getattr_bad_context_bound_member_witness:
  "heap_at (heap (fresh_proxy ())) 0 = Some (DispatchObj (Dispatch_init 0)) \<and>
   dict (Dispatch_init 0) ''Foo'' = None \<and>
   fst (resolve_dispid member_double 0 (Dispatch_init 0) ''Foo'' (fresh_proxy ())) = Inr 7 \<and>
   - 2147352573 \<in> set (ERRORS_BAD_CONTEXT hres_win) \<and>
   fst (attr_read hres_win member_double 0 ''Foo'' (fresh_proxy ())) = Inr (Ref 1) \<and>
   fst (MethodCaller_call member_double 1 [PyInt 1, PyInt 2]
         (snd (attr_read hres_win member_double 0 ''Foo'' (fresh_proxy ())))) = Inr (PyInt 42) \<and>
   attr_read hres_win member_double 0 ''Foo''
         (snd (attr_read hres_win member_double 0 ''Foo'' (fresh_proxy ()))) =
     (Inr (Ref 1), snd (attr_read hres_win member_double 0 ''Foo'' (fresh_proxy ())))"
proof -
  let ?d = "Dispatch_init 0"
  let ?st1 = "snd (resolve_dispid member_double 0 ?d ''Foo'' (fresh_proxy ()))"
  note h1 = fresh_proxy_at [of "()"]
  have h2: "''Foo'' \<noteq> ''_comobj''" and h3: "''Foo'' \<noteq> ''_ids''" and h4: "dict ?d ''Foo'' = None"
    by (simp_all add: Dispatch_init_def)
  have f: "fst (resolve_dispid member_double 0 ?d ''Foo'' (fresh_proxy ())) = Inr 7"
    by (simp add: resolve_member_double Dispatch_init_def member_GetIDsOfNames_def)
  then have h5: "resolve_dispid member_double 0 ?d ''Foo'' (fresh_proxy ()) = (Inr 7, ?st1)"
    by (simp add: prod_eq_iff)
  have h6: "Invoke member_double (comobj ?d) 7 [] (Some DISPATCH_PROPERTYGET) (world ?st1) =
      (Inl (COMError (- 2147352573) ''Member not found.'' PyNone), ())"
    by (simp add: member_double_sel member_Invoke_def)
  have h7: "- 2147352573 \<in> set (ERRORS_BAD_CONTEXT hres_win)"
    by (simp add: ERRORS_BAD_CONTEXT_def hres_win_def)
  have l: "length (heap (fresh_proxy ())) = 1"
    by (simp add: fresh_proxy_eq)
  from getattr_bad_context_bound_member [OF h1 h2 h3 h4 h5 h6 h7] obtain st2 where
    a: "attr_read hres_win member_double 0 ''Foo'' (fresh_proxy ()) = (Inr (Ref 1), st2)"
    and b: "\<And>args. MethodCaller_call member_double 1 args st2 =
        (case Invoke member_double (comobj ?d) 7 args None (world st2) of
           (r, w) \<Rightarrow> (r, st2\<lparr>world := w, trace := trace st2 @ [Invoke_call (comobj ?d) 7 args None]\<rparr>))"
    and c: "attr_read hres_win member_double 0 ''Foo'' st2 = (Inr (Ref 1), st2)"
    unfolding l by auto
  from a b [of "[PyInt 1, PyInt 2]"] c h1 h4 f h7 show ?thesis
    by (simp add: member_double_sel member_Invoke_def)
qed

text \<open>
  Claim C3. When the property read of a name fails with a \<^verbatim>\<open>COMError\<close> whose code is
  not in \<^verbatim>\<open>ERRORS_BAD_CONTEXT\<close>, the read raises that \<^verbatim>\<open>COMError\<close> with the same code,
  text and details; no object is created in the store and nothing is stored under the
  name in the \<^verbatim>\<open>__dict__\<close> of the proxy.
\<close>

theorem getattr_fatal_error_propagates:
  assumes proxy: "heap_at (heap st) self = Some (DispatchObj d)"
    and notdict: "name \<noteq> ''_comobj''" "name \<noteq> ''_ids''" "dict d name = None"
    and resolved: "resolve_dispid F self d name st = (Inr dispid, st1)"
    and failed: "Invoke F (comobj d) dispid [] (Some DISPATCH_PROPERTYGET) (world st1) =
                    (Inl (COMError hresult text details), w2)"
    and fatal: "hresult \<notin> set (ERRORS_BAD_CONTEXT H)"
  shows "attr_read H F self name st =
           (Inl (COMError hresult text details),
            st1\<lparr>world := w2,
               trace := trace st1 @ [Invoke_call (comobj d) dispid [] (Some DISPATCH_PROPERTYGET)]\<rparr>) \<and>
         length (heap (snd (attr_read H F self name st))) = length (heap st) \<and>
         (\<forall>a. a \<noteq> self \<longrightarrow> heap_at (heap (snd (attr_read H F self name st))) a = heap_at (heap st) a) \<and>
         (\<exists>d1. heap_at (heap (snd (attr_read H F self name st))) self = Some (DispatchObj d1) \<and>
                dict d1 = dict d \<and> dict d1 name = None)"
proof -
  have rd: "attr_read H F self name st =
           (Inl (COMError hresult text details),
            st1\<lparr>world := w2,
               trace := trace st1 @ [Invoke_call (comobj d) dispid [] (Some DISPATCH_PROPERTYGET)]\<rparr>)"
    using assms by (simp add: attr_read_def Dispatch_getattr_def call_Invoke_def)
  from resolve_dispid_heap(3) [OF resolved proxy] obtain d1 where
    "heap_at (heap st1) self = Some (DispatchObj d1)" "dict d1 = dict d"
    by blast
  with rd resolve_dispid_heap(1,2) [OF resolved proxy] notdict(3) show ?thesis
    by simp
qed

theorem getattr_fatal_error_propagates_witness:
  "heap_at (heap (fresh_proxy ())) 0 = Some (DispatchObj (Dispatch_init 0)) \<and>
   dict (Dispatch_init 0) ''Baz'' = None \<and>
   fst (resolve_dispid member_double 0 (Dispatch_init 0) ''Baz'' (fresh_proxy ())) = Inr 9 \<and>
   - 2147467259 \<notin> set (ERRORS_BAD_CONTEXT hres_win) \<and>
   fst (attr_read hres_win member_double 0 ''Baz'' (fresh_proxy ())) =
     Inl (COMError (- 2147467259) ''Unspecified error'' (PyStr ''source'')) \<and>
   length (heap (snd (attr_read hres_win member_double 0 ''Baz'' (fresh_proxy ())))) = 1"
proof -
  let ?d = "Dispatch_init 0"
  let ?st1 = "snd (resolve_dispid member_double 0 ?d ''Baz'' (fresh_proxy ()))"
  note h1 = fresh_proxy_at [of "()"]
  have h2: "''Baz'' \<noteq> ''_comobj''" and h3: "''Baz'' \<noteq> ''_ids''" and h4: "dict ?d ''Baz'' = None"
    by (simp_all add: Dispatch_init_def)
  have f: "fst (resolve_dispid member_double 0 ?d ''Baz'' (fresh_proxy ())) = Inr 9"
    by (simp add: resolve_member_double Dispatch_init_def member_GetIDsOfNames_def)
  then have h5: "resolve_dispid member_double 0 ?d ''Baz'' (fresh_proxy ()) = (Inr 9, ?st1)"
    by (simp add: prod_eq_iff)
  have h6: "Invoke member_double (comobj ?d) 9 [] (Some DISPATCH_PROPERTYGET) (world ?st1) =
      (Inl (COMError (- 2147467259) ''Unspecified error'' (PyStr ''source'')), ())"
    by (simp add: member_double_sel member_Invoke_def)
  have h7: "- 2147467259 \<notin> set (ERRORS_BAD_CONTEXT hres_win)"
    by (simp add: ERRORS_BAD_CONTEXT_def hres_win_def)
  have l: "length (heap (fresh_proxy ())) = 1"
    by (simp add: fresh_proxy_eq)
  note inst = getattr_fatal_error_propagates [OF h1 h2 h3 h4 h5 h6 h7]
  from inst have a: "fst (attr_read hres_win member_double 0 ''Baz'' (fresh_proxy ())) =
      Inl (COMError (- 2147467259) ''Unspecified error'' (PyStr ''source''))"
    by simp
  from inst have b: "length (heap (snd (attr_read hres_win member_double 0 ''Baz'' (fresh_proxy ())))) =
      length (heap (fresh_proxy ()))"
    by blast
  from a b l h1 h4 f h7 show ?thesis
    by simp
qed

subsection \<open>Attribute write\<close>

text \<open>
  Claim C4. An attribute write, once the identifier is there (from the cache, or after
  the one \<^verbatim>\<open>GetIDsOfNames\<close> call), makes one property put; one put by reference follows
  exactly when the put failed with a \<^verbatim>\<open>COMError\<close> of code DISP_E_MEMBERNOTFOUND; any
  other exception of the put is raised to the caller and nothing follows.
\<close>

theorem setattr_put_then_putref:
  assumes proxy: "heap_at (heap st) self = Some (DispatchObj d)"
    and resolved: "resolve_dispid F self d name st = (Inr dispid, st1)"
  shows "let put = Invoke_call (comobj d) dispid [v] (Some DISPATCH_PROPERTYPUT);
             putref = Invoke_call (comobj d) dispid [v] (Some DISPATCH_PROPERTYPUTREF);
             r1 = fst (Invoke F (comobj d) dispid [v] (Some DISPATCH_PROPERTYPUT) (world st1));
             res = Dispatch_setattr H F self name v st
         in (trace st1 = trace st \<or> trace st1 = trace st @ [GetIDsOfNames_call (comobj d) name]) \<and>
            (trace (snd res) = trace st1 @ [put] \<or> trace (snd res) = trace st1 @ [put, putref]) \<and>
            (trace (snd res) = trace st1 @ [put, putref] \<longleftrightarrow>
               (\<exists>text details. r1 = Inl (COMError (DISP_E_MEMBERNOTFOUND H) text details))) \<and>
            (\<forall>ex. r1 = Inl ex \<and> (\<forall>text details. ex \<noteq> COMError (DISP_E_MEMBERNOTFOUND H) text details)
               \<longrightarrow> fst res = Inl ex)"
proof -
  have pre: "trace st1 = trace st \<or> trace st1 = trace st @ [GetIDsOfNames_call (comobj d) name]"
    using resolve_dispid_trace [OF resolved] by auto
  obtain r w where inv: "Invoke F (comobj d) dispid [v] (Some DISPATCH_PROPERTYPUT) (world st1) = (r, w)"
    by (cases "Invoke F (comobj d) dispid [v] (Some DISPATCH_PROPERTYPUT) (world st1)")
  show ?thesis
  proof (cases r)
    case (Inr x)
    with proxy resolved inv pre show ?thesis
      by (simp add: Dispatch_setattr_def call_Invoke_def Let_def)
  next
    case (Inl ex)
    show ?thesis
    proof (cases ex)
      case (COMError hresult msg det)
      with Inl proxy resolved inv pre show ?thesis
        by (cases "Invoke F (comobj d) dispid [v] (Some DISPATCH_PROPERTYPUTREF) w")
           (auto simp: Dispatch_setattr_def call_Invoke_def Let_def)
    qed (use Inl proxy resolved inv pre in
          \<open>auto simp: Dispatch_setattr_def call_Invoke_def Let_def\<close>)
  qed
qed

theorem setattr_put_then_putref_witness:
  "heap_at (heap (fresh_proxy ())) 0 = Some (DispatchObj (Dispatch_init 0)) \<and>
   fst (resolve_dispid member_double 0 (Dispatch_init 0) ''Bar'' (fresh_proxy ())) = Inr 8 \<and>
   trace (snd (Dispatch_setattr hres_win member_double 0 ''Bar'' (PyInt 1) (fresh_proxy ()))) =
     [GetIDsOfNames_call 0 ''Bar'',
      Invoke_call 0 8 [PyInt 1] (Some DISPATCH_PROPERTYPUT),
      Invoke_call 0 8 [PyInt 1] (Some DISPATCH_PROPERTYPUTREF)]"
proof -
  let ?st1 = "snd (resolve_dispid member_double 0 (Dispatch_init 0) ''Bar'' (fresh_proxy ()))"
  have h1: "heap_at (heap (fresh_proxy ())) 0 = Some (DispatchObj (Dispatch_init 0))"
    by (simp add: fresh_proxy_eq heap_at_def Dispatch_init_def)
  have f: "fst (resolve_dispid member_double 0 (Dispatch_init 0) ''Bar'' (fresh_proxy ())) = Inr 8"
    by (simp add: resolve_dispid_def py_not_def Dispatch_init_def call_GetIDsOfNames_def
        member_double_sel member_GetIDsOfNames_def)
  then have h2: "resolve_dispid member_double 0 (Dispatch_init 0) ''Bar'' (fresh_proxy ()) = (Inr 8, ?st1)"
    by (simp add: prod_eq_iff)
  have t: "trace ?st1 = [GetIDsOfNames_call 0 ''Bar'']"
    by (simp add: resolve_dispid_def py_not_def Dispatch_init_def call_GetIDsOfNames_def
        member_double_sel member_GetIDsOfNames_def set_ids_def fresh_proxy_eq)
  from setattr_put_then_putref [OF h1 h2, of "PyInt 1" hres_win] h1 f t show ?thesis
    by (simp add: Let_def Dispatch_init_def member_double_sel member_Invoke_def hres_win_def)
qed

text \<open>
  Claim C8. An attribute write that succeeds gives the caller no value: the statement
  completes, and what \<^verbatim>\<open>__setattr__\<close> returned (the answer of its last \<^verbatim>\<open>Invoke\<close>) is
  dropped. What it did is the foreign calls: the property put on the identifier that
  the resolution step of this write gave, answered without exception, or refused with
  DISP_E_MEMBERNOTFOUND and followed by the put by reference, answered without
  exception; the foreign state is the one the last of them left. On the Python side
  no object is created, no other object changes, and the proxy keeps its COM object and
  its \<^verbatim>\<open>__dict__\<close> entries; the resolution step records the identifier of the name in
  \<^verbatim>\<open>_ids\<close>, nothing else.
\<close>

theorem attr_write_success_effects:
  assumes proxy: "heap_at (heap st) self = Some (DispatchObj d)"
    and ok: "attr_write H F self name v st = (None, st')"
  shows "\<exists>dispid st1.
           resolve_dispid F self d name st = (Inr dispid, st1) \<and>
           heap st' = heap st1 \<and>
           ((\<exists>r. Invoke F (comobj d) dispid [v] (Some DISPATCH_PROPERTYPUT) (world st1) =
                   (Inr r, world st') \<and>
                 trace st' = trace st1 @ [Invoke_call (comobj d) dispid [v] (Some DISPATCH_PROPERTYPUT)] \<and>
                 Dispatch_setattr H F self name v st = (Inr r, st')) \<or>
            (\<exists>msg det w r.
                 Invoke F (comobj d) dispid [v] (Some DISPATCH_PROPERTYPUT) (world st1) =
                   (Inl (COMError (DISP_E_MEMBERNOTFOUND H) msg det), w) \<and>
                 Invoke F (comobj d) dispid [v] (Some DISPATCH_PROPERTYPUTREF) w =
                   (Inr r, world st') \<and>
                 trace st' = trace st1 @
                   [Invoke_call (comobj d) dispid [v] (Some DISPATCH_PROPERTYPUT),
                    Invoke_call (comobj d) dispid [v] (Some DISPATCH_PROPERTYPUTREF)] \<and>
                 Dispatch_setattr H F self name v st = (Inr r, st'))) \<and>
           length (heap st') = length (heap st) \<and>
           (\<forall>a. a \<noteq> self \<longrightarrow> heap_at (heap st') a = heap_at (heap st) a) \<and>
           (\<exists>d1. heap_at (heap st') self = Some (DispatchObj d1) \<and> comobj d1 = comobj d \<and>
                  dict d1 = dict d \<and> (ids d1 = ids d \<or> ids d1 = (ids d)(name \<mapsto> dispid)))"
proof -
  from ok obtain r0 where set: "Dispatch_setattr H F self name v st = (Inr r0, st')"
    by (auto simp: attr_write_def split: prod.splits sum.splits)
  obtain q st1 where res: "resolve_dispid F self d name st = (q, st1)"
    by (cases "resolve_dispid F self d name st")
  from set proxy res obtain dispid where q: "q = Inr dispid"
    by (cases q) (auto simp: Dispatch_setattr_def)
  note hp = resolve_dispid_heap [OF res proxy]
  from hp(3) q obtain d1 where
    d1: "heap_at (heap st1) self = Some (DispatchObj d1)" "comobj d1 = comobj d" "dict d1 = dict d"
        "ids d1 = ids d \<or> ids d1 = (ids d)(name \<mapsto> dispid)"
    by auto
  let ?put = "Invoke_call (comobj d) dispid [v] (Some DISPATCH_PROPERTYPUT)"
  let ?putref = "Invoke_call (comobj d) dispid [v] (Some DISPATCH_PROPERTYPUTREF)"
  obtain p w where put: "Invoke F (comobj d) dispid [v] (Some DISPATCH_PROPERTYPUT) (world st1) = (p, w)"
    by (cases "Invoke F (comobj d) dispid [v] (Some DISPATCH_PROPERTYPUT) (world st1)")
  obtain p' w' where putref: "Invoke F (comobj d) dispid [v] (Some DISPATCH_PROPERTYPUTREF) w = (p', w')"
    by (cases "Invoke F (comobj d) dispid [v] (Some DISPATCH_PROPERTYPUTREF) w")
  from set proxy res q put putref
  have "(p = Inr r0 \<and> st' = st1\<lparr>world := w, trace := trace st1 @ [?put]\<rparr>)
      \<or> ((\<exists>msg det. p = Inl (COMError (DISP_E_MEMBERNOTFOUND H) msg det)) \<and> p' = Inr r0 \<and>
          st' = st1\<lparr>world := w', trace := trace st1 @ [?put] @ [?putref]\<rparr>)"
    by (auto simp: Dispatch_setattr_def call_Invoke_def split: sum.splits exn.splits if_splits)
  then have mid: "heap st' = heap st1 \<and>
           ((\<exists>r. Invoke F (comobj d) dispid [v] (Some DISPATCH_PROPERTYPUT) (world st1) =
                   (Inr r, world st') \<and>
                 trace st' = trace st1 @ [?put] \<and>
                 Dispatch_setattr H F self name v st = (Inr r, st')) \<or>
            (\<exists>msg det w r.
                 Invoke F (comobj d) dispid [v] (Some DISPATCH_PROPERTYPUT) (world st1) =
                   (Inl (COMError (DISP_E_MEMBERNOTFOUND H) msg det), w) \<and>
                 Invoke F (comobj d) dispid [v] (Some DISPATCH_PROPERTYPUTREF) w =
                   (Inr r, world st') \<and>
                 trace st' = trace st1 @ [?put, ?putref] \<and>
                 Dispatch_setattr H F self name v st = (Inr r, st')))"
    using put putref set by auto
  then have hs: "heap st' = heap st1"
    by blast
  from hs hp(1,2) d1 have rest: "length (heap st') = length (heap st) \<and>
           (\<forall>a. a \<noteq> self \<longrightarrow> heap_at (heap st') a = heap_at (heap st) a) \<and>
           (\<exists>d1. heap_at (heap st') self = Some (DispatchObj d1) \<and> comobj d1 = comobj d \<and>
                  dict d1 = dict d \<and> (ids d1 = ids d \<or> ids d1 = (ids d)(name \<mapsto> dispid)))"
    by auto
  from res q mid rest show ?thesis
    by blast
qed

theorem attr_write_success_effects_witness:
  "heap_at (heap (fresh_proxy ())) 0 = Some (DispatchObj (Dispatch_init 0)) \<and>
   fst (attr_write hres_win member_double 0 ''Value'' (PyInt 1) (fresh_proxy ())) = None \<and>
   fst (Dispatch_setattr hres_win member_double 0 ''Value'' (PyInt 1) (fresh_proxy ())) = Inr (PyInt 7) \<and>
   length (heap (snd (attr_write hres_win member_double 0 ''Value'' (PyInt 1) (fresh_proxy ())))) = 1"
proof -
  let ?res = "attr_write hres_win member_double 0 ''Value'' (PyInt 1) (fresh_proxy ())"
  note h1 = fresh_proxy_at [of "()"]
  have g: "fst (Dispatch_setattr hres_win member_double 0 ''Value'' (PyInt 1) (fresh_proxy ())) =
      Inr (PyInt 7)"
    by (simp add: Dispatch_setattr_def fresh_proxy_at resolve_member_double Dispatch_init_def
        member_GetIDsOfNames_def call_Invoke_def member_double_sel member_Invoke_def hres_win_def)
  then have f: "fst ?res = None"
    by (cases "Dispatch_setattr hres_win member_double 0 ''Value'' (PyInt 1) (fresh_proxy ())")
       (simp add: attr_write_def)
  then have h2: "?res = (None, snd ?res)"
    by (simp add: prod_eq_iff)
  have l: "length (heap (fresh_proxy ())) = 1"
    by (simp add: fresh_proxy_eq)
  from attr_write_success_effects [OF h1 h2] have
    "length (heap (snd ?res)) = length (heap (fresh_proxy ()))"
    by blast
  with h1 f g l show ?thesis
    by simp
qed

subsection \<open>Indexing and iteration\<close>

text \<open>
  Claim C5. On a collection of three items A, B, C, \<^verbatim>\<open>proxy[0]\<close> is A, \<^verbatim>\<open>proxy[2]\<close> is C
  and \<^verbatim>\<open>proxy[3]\<close> raises \<^verbatim>\<open>IndexError\<close>. Every access, whatever the index, starts with
  one \<^verbatim>\<open>Invoke(-4)\<close> and one \<^verbatim>\<open>QueryInterface\<close> and works on the enumerator made by
  them: the cursors that were there before are untouched. The store and the items are
  as before, so the same holds for the next access.
\<close>

theorem getitem_three_elements:
  assumes proxy: "heap_at (heap st) self = Some (DispatchObj d)"
    and three: "items (world st) = [A, B, C]"
  shows "let n = length (cursors (world st));
             acquire = [Invoke_call (comobj d) (- 4) [] None, QueryInterface_call n IEnumVARIANT];
             r0 = Dispatch_getitem coll_double self 0 st;
             r2 = Dispatch_getitem coll_double self 2 st;
             r3 = Dispatch_getitem coll_double self 3 st
         in fst r0 = Inr A \<and> trace (snd r0) = trace st @ acquire @ [Next_call n 1] \<and>
            fst r2 = Inr C \<and> trace (snd r2) = trace st @ acquire @ [Skip_call n 2, Next_call n 1] \<and>
            fst r3 = Inl (IndexError ''index out of range'') \<and>
            trace (snd r3) = trace st @ acquire @ [Skip_call n 3, Next_call n 1] \<and>
            (\<forall>index. let s = snd (Dispatch_getitem coll_double self index st)
               in heap s = heap st \<and> items (world s) = [A, B, C] \<and>
                  length (cursors (world s)) = Suc n \<and>
                  take n (cursors (world s)) = cursors (world st) \<and>
                  take (length (trace st) + 2) (trace s) = trace st @ acquire)"
  using assms
  by (simp add: Let_def Dispatch_getitem_def coll_enum coll_fetch call_Skip_def
      coll_double_sel coll_Skip_def)

theorem getitem_three_elements_witness:
  "heap_at (heap (fresh_proxy abc_world)) 0 = Some (DispatchObj (Dispatch_init 0)) \<and>
   items (world (fresh_proxy abc_world)) = [PyStr ''A'', PyStr ''B'', PyStr ''C''] \<and>
   fst (Dispatch_getitem coll_double 0 0 (fresh_proxy abc_world)) = Inr (PyStr ''A'') \<and>
   fst (Dispatch_getitem coll_double 0 2 (fresh_proxy abc_world)) = Inr (PyStr ''C'') \<and>
   fst (Dispatch_getitem coll_double 0 3 (fresh_proxy abc_world)) = Inl (IndexError ''index out of range'')"
proof -
  note h1 = fresh_proxy_at [of abc_world]
  have h2: "items (world (fresh_proxy abc_world)) = [PyStr ''A'', PyStr ''B'', PyStr ''C'']"
    by (simp add: fresh_proxy_eq abc_world_def)
  from getitem_three_elements [OF h1 h2] h1 h2 show ?thesis
    by (simp add: Let_def)
qed

text \<open>
  Claim C10. For an index that is 0 or negative, \<^verbatim>\<open>proxy[index]\<close> does what \<^verbatim>\<open>proxy[0]\<close>
  does: no \<^verbatim>\<open>Skip\<close> is called, one item is fetched from the new enumerator. On a
  collection double this is the first item, or \<^verbatim>\<open>IndexError\<close> when there is none.
\<close>

theorem getitem_nonpositive_index:
  assumes "index \<le> 0"
  shows "Dispatch_getitem F self index st = Dispatch_getitem F self 0 st \<and>
         Dispatch_getitem F self index st =
           (case Dispatch_enum F self st of
              (Inl ex, st1) \<Rightarrow> (Inl ex, st1)
            | (Inr enum, st1) \<Rightarrow> fetch_item F enum st1) \<and>
         (\<forall>k n. Skip_call k n \<notin>
            set (drop (length (trace st)) (trace (snd (Dispatch_getitem F self index st))))) \<and>
         (\<forall>d. heap_at (heap cst) cself = Some (DispatchObj d) \<longrightarrow>
            fst (Dispatch_getitem coll_double cself index cst) =
              (case items (world cst) of
                 [] \<Rightarrow> Inl (IndexError ''index out of range'')
               | x # xs \<Rightarrow> Inr x))"
proof -
  have eq': "Dispatch_getitem F self i st =
           (case Dispatch_enum F self st of
              (Inl ex, st1) \<Rightarrow> (Inl ex, st1)
            | (Inr enum, st1) \<Rightarrow> fetch_item F enum st1)"
    if "i \<le> 0" for i and F :: "'x foreign" and self and st :: "'x state"
    using that by (auto simp: Dispatch_getitem_def split: prod.splits sum.splits)
  note eq = eq' [OF assms]
  have zero: "Dispatch_getitem F self index st = Dispatch_getitem F self 0 st"
    by (simp add: eq eq' [of 0])
  have noskip: "Skip_call k n \<notin>
            set (drop (length (trace st)) (trace (snd (Dispatch_getitem F self index st))))" for k n
    unfolding eq
    by (auto simp: Dispatch_enum_def fetch_item_def call_Invoke_def call_Next_def
        value_QueryInterface_def Dispatch_QueryInterface_def call_QueryInterface_def
        split: prod.splits sum.splits option.splits pyobj.splits pyval.splits if_splits)
  have dbl: "fst (Dispatch_getitem coll_double cself index cst) =
              (case items (world cst) of
                 [] \<Rightarrow> Inl (IndexError ''index out of range'')
               | x # xs \<Rightarrow> Inr x)" if "heap_at (heap cst) cself = Some (DispatchObj d)" for d
    unfolding eq using that
    by (simp add: coll_enum coll_fetch nth_append split: list.splits)
  from eq zero noskip dbl show ?thesis by blast
qed

theorem getitem_nonpositive_index_witness:
  "(- 1 :: int) \<le> 0 \<and>
   Dispatch_getitem coll_double 0 (- 1) (fresh_proxy abc_world) =
     Dispatch_getitem coll_double 0 0 (fresh_proxy abc_world) \<and>
   fst (Dispatch_getitem coll_double 0 (- 1) (fresh_proxy abc_world)) = Inr (PyStr ''A'')"
proof -
  have h: "(- 1 :: int) \<le> 0"
    by simp
  have i: "items (world (fresh_proxy abc_world)) = [PyStr ''A'', PyStr ''B'', PyStr ''C'']"
    by (simp add: fresh_proxy_eq abc_world_def)
  note inst = getitem_nonpositive_index
    [OF h, of coll_double 0 "fresh_proxy abc_world" "fresh_proxy abc_world" 0]
  from inst have a: "Dispatch_getitem coll_double 0 (- 1) (fresh_proxy abc_world) =
      Dispatch_getitem coll_double 0 0 (fresh_proxy abc_world)"
    by blast
  from inst fresh_proxy_at [of abc_world]
  have "fst (Dispatch_getitem coll_double 0 (- 1) (fresh_proxy abc_world)) =
      (case items (world (fresh_proxy abc_world)) of
         [] \<Rightarrow> Inl (IndexError ''index out of range'')
       | x # xs \<Rightarrow> Inr x)"
    by blast
  then have b: "fst (Dispatch_getitem coll_double 0 (- 1) (fresh_proxy abc_world)) = Inr (PyStr ''A'')"
    by (simp add: i)
  from h a b show ?thesis
    by blast
qed

text \<open>
  Claim C7. After the third \<^verbatim>\<open>next()\<close> has raised \<^verbatim>\<open>StopIteration\<close>, no further foreign
  call is made. As stated this does not hold of \<^verbatim>\<open>_Collection\<close>: it keeps no record of
  the exhaustion, so a fourth \<^verbatim>\<open>next()\<close> calls \<^verbatim>\<open>Next(1)\<close> on the enumerator once more
  (and raises \<^verbatim>\<open>StopIteration\<close> again).
\<close>

theorem next_after_exhaustion_counterexample:
  "fst (Collection_next coll_double 1 ab_two_fetched) = Inl StopIteration \<and>
   trace ab_exhausted =
     [Invoke_call 0 (- 4) [] None, QueryInterface_call 0 IEnumVARIANT,
      Next_call 0 1, Next_call 0 1, Next_call 0 1] \<and>
   fst (Collection_next coll_double 1 ab_exhausted) = Inl StopIteration \<and>
   trace (snd (Collection_next coll_double 1 ab_exhausted)) =
     [Invoke_call 0 (- 4) [] None, QueryInterface_call 0 IEnumVARIANT,
      Next_call 0 1, Next_call 0 1, Next_call 0 1, Next_call 0 1]"
  by (simp add: ab_exhausted_def ab_two_fetched_def ab_world_def fresh_proxy_eq
      Dispatch_iter_def Dispatch_enum_def value_QueryInterface_def call_QueryInterface_def
      call_Invoke_def alloc_def heap_at_def Collection_next_def call_Next_def
      coll_double_sel coll_Invoke_def coll_Next_def)

text \<open>
  Claim C7, amended. On a collection of two items A, B, \<^verbatim>\<open>__iter__\<close> makes a new
  \<^verbatim>\<open>_Collection\<close> around a new enumerator at the start; \<^verbatim>\<open>next()\<close> gives A, then B, and
  the third call raises \<^verbatim>\<open>StopIteration\<close>; up to there the foreign calls are the two
  that made the enumerator and three \<^verbatim>\<open>Next(1)\<close>. An iteration that stops at
  \<^verbatim>\<open>StopIteration\<close> ends in that state whatever fuel is left. Every \<^verbatim>\<open>next()\<close> called
  after that makes exactly one more \<^verbatim>\<open>Next(1)\<close>, leaves the foreign state as it is and
  raises \<^verbatim>\<open>StopIteration\<close> again. A second iteration begun after the first item has an
  enumerator of its own: it starts at A, and the first one goes on with B.
\<close>

theorem iterate_two_elements_then_exhausted:
  assumes proxy: "heap_at (heap st) self = Some (DispatchObj d)"
    and two: "items (world st) = [A, B]"
  shows "let n = length (cursors (world st));
             it = length (heap st);
             acquire = [Invoke_call (comobj d) (- 4) [] None, QueryInterface_call n IEnumVARIANT];
             r = Dispatch_iter coll_double self st;
             r1 = Collection_next coll_double it (snd r);
             r2 = Collection_next coll_double it (snd r1);
             r3 = Collection_next coll_double it (snd r2);
             again = (\<lambda>s. snd (Collection_next coll_double it s));
             q = Dispatch_iter coll_double self (snd r1);
             q1 = Collection_next coll_double (Suc it) (snd q);
             q2 = Collection_next coll_double it (snd q1)
         in fst r = Inr (Ref it) \<and> heap_at (heap st) it = None \<and>
            heap_at (heap (snd r)) it = Some (CollectionObj n) \<and>
            cursors (world (snd r)) = cursors (world st) @ [0] \<and>
            trace (snd r) = trace st @ acquire \<and>
            fst r1 = Inr A \<and> fst r2 = Inr B \<and> fst r3 = Inl StopIteration \<and>
            trace (snd r3) = trace st @ acquire @ [Next_call n 1, Next_call n 1, Next_call n 1] \<and>
            (\<forall>m. iterate coll_double it (3 + m) (snd r) = Some (Inr [A, B], snd r3)) \<and>
            (\<forall>j. fst (Collection_next coll_double it ((again ^^ j) (snd r3))) = Inl StopIteration \<and>
                 trace ((again ^^ j) (snd r3)) = trace (snd r3) @ replicate j (Next_call n 1) \<and>
                 world ((again ^^ j) (snd r3)) = world (snd r3)) \<and>
            fst q = Inr (Ref (Suc it)) \<and> heap_at (heap (snd q)) (Suc it) = Some (CollectionObj (Suc n)) \<and>
            fst q1 = Inr A \<and> fst q2 = Inr B"
proof -
  from proxy have lt: "self < length (heap st)" and obj: "heap st ! self = DispatchObj d"
    by (simp_all add: heap_at_def split: if_splits)
  have px: "heap_at (heap st @ [CollectionObj k]) self = Some (DispatchObj d)" for k
    using lt obj by (simp add: heap_at_def nth_append)
  have it: "heap_at (heap st @ [CollectionObj k]) (length (heap st)) = Some (CollectionObj k)" for k
    by (simp add: heap_at_def)
  have it2: "heap_at (heap st @ [CollectionObj k, CollectionObj k']) (length (heap st)) =
      Some (CollectionObj k)" for k k'
    by (simp add: heap_at_def nth_append)
  have it3: "heap_at (heap st @ [CollectionObj k, CollectionObj k']) (Suc (length (heap st))) =
      Some (CollectionObj k')" for k k'
    by (simp add: heap_at_def nth_append)
  have none: "heap_at (heap st) (length (heap st)) = None"
    by (simp add: heap_at_def)
  show ?thesis
    using two
    by (simp add: Let_def coll_iter [where d = d] proxy px it it2 it3 none
        coll_next [where k = "length (cursors (world st))"]
        coll_next [where k = "Suc (length (cursors (world st)))"]
        coll_next_exhausted [where k = "length (cursors (world st))"]
        nth_append numeral_3_eq_3 list_update_append)
qed

theorem iterate_two_elements_then_exhausted_witness:
  "heap_at (heap (fresh_proxy ab_world)) 0 = Some (DispatchObj (Dispatch_init 0)) \<and>
   items (world (fresh_proxy ab_world)) = [PyStr ''A'', PyStr ''B''] \<and>
   fst (Dispatch_iter coll_double 0 (fresh_proxy ab_world)) = Inr (Ref 1) \<and>
   map_option fst (iterate coll_double 1 3 (snd (Dispatch_iter coll_double 0 (fresh_proxy ab_world)))) =
     Some (Inr [PyStr ''A'', PyStr ''B''])"
proof -
  note h1 = fresh_proxy_at [of ab_world]
  have h2: "items (world (fresh_proxy ab_world)) = [PyStr ''A'', PyStr ''B'']"
    by (simp add: fresh_proxy_eq ab_world_def)
  have l: "length (heap (fresh_proxy ab_world)) = 1"
    by (simp add: fresh_proxy_eq)
  note inst = iterate_two_elements_then_exhausted [OF h1 h2, unfolded Let_def l]
  from inst have a: "fst (Dispatch_iter coll_double 0 (fresh_proxy ab_world)) = Inr (Ref 1)"
    by blast
  from inst have "\<forall>m. \<exists>s. iterate coll_double 1 (3 + m)
      (snd (Dispatch_iter coll_double 0 (fresh_proxy ab_world))) =
        Some (Inr [PyStr ''A'', PyStr ''B''], s)"
    by blast
  then obtain s where "iterate coll_double 1 (3 + 0)
      (snd (Dispatch_iter coll_double 0 (fresh_proxy ab_world))) =
        Some (Inr [PyStr ''A'', PyStr ''B''], s)"
    by blast
  then have b: "map_option fst (iterate coll_double 1 3
      (snd (Dispatch_iter coll_double 0 (fresh_proxy ab_world)))) =
        Some (Inr [PyStr ''A'', PyStr ''B''])"
    by simp
  from a b h1 h2 show ?thesis
    by simp
qed

subsection \<open>Dispatch and MethodCaller\<close>

text \<open>
  Claim C6. \<^verbatim>\<open>Dispatch\<close> of a reference to a proxy gives the same reference and leaves
  the state as it is; \<^verbatim>\<open>Dispatch\<close> of a \<^verbatim>\<open>POINTER(IDispatch)\<close> puts a new proxy around the
  pointer, with an empty \<^verbatim>\<open>_ids\<close>, at an address that was free. Hence wrapping the
  result of a wrap changes nothing.
\<close>

theorem Dispatch_wrap:
  "(heap_at (heap st) a = Some (DispatchObj d) \<longrightarrow> Dispatch (Ref a) st = (Ref a, st)) \<and>
   Dispatch (ComPtr IDispatch r) st =
     (Ref (length (heap st)),
      st\<lparr>heap := heap st @ [DispatchObj \<lparr>comobj = r, ids = Map.empty, dict = Map.empty\<rparr>]\<rparr>) \<and>
   heap_at (heap st) (length (heap st)) = None \<and>
   (case Dispatch obj st of (q, st1) \<Rightarrow> Dispatch q st1 = (q, st1))"
  by (auto simp: Dispatch_def isinstance_Dispatch_def alloc_def heap_at_def Dispatch_init_def
      split: pyval.splits iface.splits option.splits pyobj.splits)

theorem Dispatch_wrap_witness:
  "heap_at (heap (fresh_proxy ())) 0 = Some (DispatchObj (Dispatch_init 0)) \<and>
   Dispatch (Ref 0) (fresh_proxy ()) = (Ref 0, fresh_proxy ()) \<and>
   fst (Dispatch (ComPtr IDispatch 5) (fresh_proxy ())) = Ref 1"
proof -
  have h: "heap_at (heap (fresh_proxy ())) 0 = Some (DispatchObj (Dispatch_init 0))"
    by (simp add: fresh_proxy_eq heap_at_def Dispatch_init_def)
  have l: "length (heap (fresh_proxy ())) = 1"
    by (simp add: fresh_proxy_eq)
  from Dispatch_wrap [of "fresh_proxy ()" 0 "Dispatch_init 0" 5] h l show ?thesis
    by simp
qed

text \<open>
  Claim C9. An indexed assignment on a \<^verbatim>\<open>MethodCaller\<close> makes exactly one \<^verbatim>\<open>Invoke\<close>,
  with the indices and the value as arguments: a put by reference when \<^verbatim>\<open>_is_object\<close>
  holds of the value, a property put otherwise. When the call fails its exception is
  raised and nothing is tried again; when it succeeds the method gives \<^verbatim>\<open>None\<close>.
\<close>

theorem setitem_single_put:
  assumes caller: "heap_at (heap st) mc = Some (MethodCallerObj dispid obj)"
    and proxy: "heap_at (heap st) obj = Some (DispatchObj d)"
  shows "MethodCaller_setitem is_object F mc (idx @ [v]) st =
     (let kind = (if is_object (heap st) v then DISPATCH_PROPERTYPUTREF else DISPATCH_PROPERTYPUT)
      in (case Invoke F (comobj d) dispid (idx @ [v]) (Some kind) (world st) of
            (r, w) \<Rightarrow>
              ((case r of Inl ex \<Rightarrow> Inl ex | Inr x \<Rightarrow> Inr PyNone),
               st\<lparr>world := w, trace := trace st @ [Invoke_call (comobj d) dispid (idx @ [v]) (Some kind)]\<rparr>)))"
  using assms
  by (simp add: MethodCaller_setitem_def MethodCaller_comobj_def call_Invoke_def Let_def
      split: prod.splits sum.splits)

theorem setitem_single_put_witness:
  "trace (snd (MethodCaller_setitem com_is_object member_double 1 [PyInt 0, PyInt 5]
      \<lparr>heap = [DispatchObj (Dispatch_init 0), MethodCallerObj 7 0], world = (), trace = []\<rparr>)) =
     [Invoke_call 0 7 [PyInt 0, PyInt 5] (Some DISPATCH_PROPERTYPUT)] \<and>
   trace (snd (MethodCaller_setitem com_is_object member_double 1 [PyInt 0, ComPtr IDispatch 3]
      \<lparr>heap = [DispatchObj (Dispatch_init 0), MethodCallerObj 7 0], world = (), trace = []\<rparr>)) =
     [Invoke_call 0 7 [PyInt 0, ComPtr IDispatch 3] (Some DISPATCH_PROPERTYPUTREF)]"
proof -
  let ?st = "\<lparr>heap = [DispatchObj (Dispatch_init 0), MethodCallerObj 7 0], world = (), trace = []\<rparr>"
  have h1: "heap_at (heap ?st) 1 = Some (MethodCallerObj 7 0)"
    by (simp add: heap_at_def)
  have h2: "heap_at (heap ?st) 0 = Some (DispatchObj (Dispatch_init 0))"
    by (simp add: heap_at_def)
  from setitem_single_put [OF h1 h2, of com_is_object member_double "[PyInt 0]" "PyInt 5"]
       setitem_single_put [OF h1 h2, of com_is_object member_double "[PyInt 0]" "ComPtr IDispatch 3"]
  show ?thesis
    by (simp add: Dispatch_init_def com_is_object_def split: prod.splits)
qed

end
